theory Spec2Isabelle
  imports Complex_Main
begin

section \<open>Infinite families of flat surfaces: labels, gluings and coefficients\<close>

text \<open>
  A shallow embedding of \<^verbatim>\<open>flatsurf/geometry/similarity_surface_generators.py\<close>,
  \<^verbatim>\<open>flatsurf/geometry/chamanara.py\<close> and of the older top-level copy
  \<^verbatim>\<open>similarity_surface_generators.py\<close>. Sage integers are \<^typ>\<open>int\<close> (unbounded, and
  \<open>mod\<close> has the sign of the divisor as Python's \<^verbatim>\<open>%\<close> has), elements of the base field
  are a type of class \<open>field\<close>, and every exception the code raises is a value of
  \<open>error\<close> on the left of a sum.
\<close>

datatype error =
    ValueError string
  | ZeroDivisionError
  | NameError string
  | UnboundLocalError string

subsection \<open>InfiniteStaircase\<close>

text \<open>
  \<^verbatim>\<open>if (p+e) % 2: return p+1,(e+2)%4   else: return p-1,(e+2)%4\<close>
\<close>

definition InfiniteStaircase_opposite_edge :: "int \<Rightarrow> int \<Rightarrow> int \<times> int" where
  "InfiniteStaircase_opposite_edge p e =
     (if (p + e) mod 2 \<noteq> 0 then (p + 1, (e + 2) mod 4) else (p - 1, (e + 2) mod 4))"

subsection \<open>EInfinity\<close>

text \<open>
  The two weight sequences of the \<open>E\<^sub>\<infinity>\<close> graph. \<^verbatim>\<open>self._l\<close> is the parameter \<open>l\<close>;
  \<^verbatim>\<open>@cached_method\<close> only stores results and does not change them. Each function is one
  chain of \<^verbatim>\<open>if ...: return\<close> statements, kept in the order of the source.
\<close>

function get_white :: "'a::field \<Rightarrow> int \<Rightarrow> 'a"
  and get_black :: "'a::field \<Rightarrow> int \<Rightarrow> 'a" where
  "get_white l n =
     (if n = 0 \<or> n = 1 then l
      else if n = -1 then l - 1
      else if n = 2 then 1 - 3 * l + l ^ 2
      else if n > 2 then
        (let x = get_white l (n - 1); y = get_black l n in l * y - x)
      else get_white l (- n))"
| "get_black l n =
     (if n = 0 then 1
      else if n = 1 \<or> n = -1 \<or> n = 2 then l - 1
      else if n > 2 then
        (let x = get_black l (n - 1); y = get_white l (n - 1) in y - x)
      else get_black l (1 - n))"
  by pat_completeness auto
termination
  by (relation "measure (\<lambda>c. case c of
        Inl (l, n) \<Rightarrow> (if n > 2 then nat (2 * n + 1) else if n < -1 then nat (2 * (- n) + 2) else 0)
      | Inr (l, n) \<Rightarrow> (if n > 2 then nat (2 * n) else if n < -1 then nat (2 * (1 - n) + 1) else 0))")
    auto

declare get_white.simps [simp del] get_black.simps [simp del]

text \<open>
  The same two bodies with a recursion budget: every call spends one unit, and a call
  that has none left returns \<open>None\<close>. A body reads the results of its recursive calls in
  the order of the source.
\<close>

fun get_white_fuel :: "nat \<Rightarrow> 'a::field \<Rightarrow> int \<Rightarrow> 'a option"
  and get_black_fuel :: "nat \<Rightarrow> 'a::field \<Rightarrow> int \<Rightarrow> 'a option" where
  "get_white_fuel 0 l n = None"
| "get_white_fuel (Suc k) l n =
     (if n = 0 \<or> n = 1 then Some l
      else if n = -1 then Some (l - 1)
      else if n = 2 then Some (1 - 3 * l + l ^ 2)
      else if n > 2 then
        (case get_white_fuel k l (n - 1) of None \<Rightarrow> None
         | Some x \<Rightarrow> (case get_black_fuel k l n of None \<Rightarrow> None
                      | Some y \<Rightarrow> Some (l * y - x)))
      else get_white_fuel k l (- n))"
| "get_black_fuel 0 l n = None"
| "get_black_fuel (Suc k) l n =
     (if n = 0 then Some 1
      else if n = 1 \<or> n = -1 \<or> n = 2 then Some (l - 1)
      else if n > 2 then
        (case get_black_fuel k l (n - 1) of None \<Rightarrow> None
         | Some x \<Rightarrow> (case get_white_fuel k l (n - 1) of None \<Rightarrow> None
                      | Some y \<Rightarrow> Some (y - x)))
      else get_black_fuel k l (1 - n))"

text \<open>
  The gluing of the \<open>E\<^sub>\<infinity>\<close> surface. In the source the blocks for \<open>p = 0, 1, -1, 2\<close> hold
  one \<^verbatim>\<open>if e==k: return\<close> per edge and fall through to the final \<^verbatim>\<open>if p>2 ... else\<close>
  when no edge matches; the chain below takes the same branch at every \<open>(p, e)\<close>.
\<close>

definition EInfinity_opposite_edge :: "int \<Rightarrow> int \<Rightarrow> int \<times> int" where
  "EInfinity_opposite_edge p e =
     (if p = 0 \<and> e = 0 then (0, 2)
      else if p = 0 \<and> e = 1 then (1, 3)
      else if p = 0 \<and> e = 2 then (0, 0)
      else if p = 0 \<and> e = 3 then (1, 1)
      else if p = 1 \<and> e = 0 then (-1, 2)
      else if p = 1 \<and> e = 1 then (0, 3)
      else if p = 1 \<and> e = 2 then (2, 0)
      else if p = 1 \<and> e = 3 then (0, 1)
      else if p = -1 \<and> e = 0 then (2, 2)
      else if p = -1 \<and> e = 1 then (-1, 3)
      else if p = -1 \<and> e = 2 then (1, 0)
      else if p = -1 \<and> e = 3 then (-1, 1)
      else if p = 2 \<and> e = 0 then (1, 2)
      else if p = 2 \<and> e = 1 then (-2, 3)
      else if p = 2 \<and> e = 2 then (-1, 0)
      else if p = 2 \<and> e = 3 then (-2, 1)
      else if p > 2 then
        (if e mod 2 \<noteq> 0 then (- p, (e + 2) mod 4) else (1 - p, (e + 2) mod 4))
      else
        (if e mod 2 \<noteq> 0 then (- p, (e + 2) mod 4) else (1 - p, (e + 2) mod 4)))"

subsection \<open>ChamanaraSurface: the gluing\<close>

definition ChamanaraSurface_opposite_edge :: "int \<Rightarrow> int \<Rightarrow> int \<times> int" where
  "ChamanaraSurface_opposite_edge p e =
     (if e = 0 \<or> e = 2 then (1 - p, e)
      else if e = 1 then
        (if p < 0 then (p + 1, 3)
         else if p > 1 then (p - 1, 3)
         else (1 - p, 1))
      else
        (if p \<le> 0 then (p - 1, 1)
         else (p + 1, 1)))"

subsection \<open>Polygons\<close>

text \<open>
  Modelled from the spec: the module \<^verbatim>\<open>flatsurf.geometry.polygon\<close> is not part of the
  sources at hand. A polygon is the ordered sequence of its edge vectors over the base
  field, and a scalar times a polygon scales every edge vector. The constructors of that
  module (\<^verbatim>\<open>polygons(...)\<close>, \<^verbatim>\<open>Polygons(field)(...)\<close>) may reject a sequence of edges; they
  are a parameter \<open>mk\<close> of every function that calls one.
\<close>

type_synonym 'a polygon = "('a \<times> 'a) list"

definition scale :: "'a::field \<Rightarrow> 'a polygon \<Rightarrow> 'a polygon" where
  "scale c P = map (\<lambda>(x, y). (c * x, c * y)) P"

subsection \<open>TFractal\<close>

datatype letter = L | R

type_synonym word = "letter list"

text \<open>The parameters stored by \<^verbatim>\<open>__init__\<close> (\<^verbatim>\<open>_w\<close>, \<^verbatim>\<open>_r\<close>, \<^verbatim>\<open>_h1\<close>, \<^verbatim>\<open>_h2\<close>), in the base field.\<close>

record 'a TFractal =
  tf_w :: 'a
  tf_r :: 'a
  tf_h1 :: 'a
  tf_h2 :: 'a

text \<open>
  \<^verbatim>\<open>TFractal.opposite_edge\<close> of \<^verbatim>\<open>flatsurf/geometry/similarity_surface_generators.py\<close>.
  The edge is checked first and gives \<open>f\<close>; then the tag \<open>i\<close> selects a block, whose four
  \<^verbatim>\<open>if e == k\<close> statements set the label (\<open>e\<close> is one of 0, 1, 2, 3 at that point, so the
  last branch of each inner chain is \<open>e = 3\<close>). \<^verbatim>\<open>w[-1]\<close> is \<open>last w\<close>, \<^verbatim>\<open>w[:-1]\<close> is
  \<open>butlast w\<close>, and \<^verbatim>\<open>w + self._wL\<close> is \<open>w @ [L]\<close>.
\<close>

definition TFractal_opposite_edge :: "word \<times> int \<Rightarrow> int \<Rightarrow> error + ((word \<times> int) \<times> int)" where
  "TFractal_opposite_edge p e =
     (case p of (w, i) \<Rightarrow>
       (case (if e = 0 then Inr 2
              else if e = 1 then Inr 3
              else if e = 2 then Inr 0
              else if e = 3 then Inr 1
              else Inl (ValueError ''e must be either 0,1,2 or 3'')) of
          Inl err \<Rightarrow> Inl err
        | Inr f \<Rightarrow>
           (if i = 0 then
              Inr ((if e = 0 then
                      (if w = [] then (w, 2)
                       else if last w = L then (butlast w, 1)
                       else (butlast w, 3))
                    else if e = 1 then (w, 0)
                    else if e = 2 then (w, 2)
                    else (w, 0)), f)
            else if i = 1 then
              Inr ((if e = 0 then (w @ [L], 2)
                    else if e = 1 then (w, 2)
                    else if e = 2 then (w @ [L], 0)
                    else (w, 3)), f)
            else if i = 2 then
              Inr ((if e = 0 then (w, 0)
                    else if e = 1 then (w, 3)
                    else if e = 2 then
                      (if w = [] then (w, 0)
                       else if last w = L then (butlast w, 1)
                       else (butlast w, 3))
                    else (w, 1)), f)
            else if i = 3 then
              Inr ((if e = 0 then (w @ [R], 2)
                    else if e = 1 then (w, 1)
                    else if e = 2 then (w @ [R], 0)
                    else (w, 2)), f)
            else Inl (ValueError ''i must be either 0,1,2 or 3''))))"

text \<open>
  \<^verbatim>\<open>TFractal._base_polygon\<close>: three \<^verbatim>\<open>if\<close> statements with disjoint conditions set \<^verbatim>\<open>w\<close>
  and \<^verbatim>\<open>h\<close>; for any other tag the final line reads the unassigned local \<^verbatim>\<open>w\<close>. The
  division by \<^verbatim>\<open>self._r\<close> raises when \<open>r\<close> is zero.
\<close>

definition TFractal_base_polygon ::
  "('a polygon \<Rightarrow> error + 'a polygon) \<Rightarrow> 'a::field TFractal \<Rightarrow> int \<Rightarrow> error + 'a polygon" where
  "TFractal_base_polygon mk T i =
     (if i = 0 then
        mk [(tf_w T, 0), (0, tf_h1 T), (- tf_w T, 0), (0, - tf_h1 T)]
      else if i = 1 \<or> i = 3 then
        (if tf_r T = 0 then Inl ZeroDivisionError
         else mk [(tf_w T / tf_r T, 0), (0, tf_h2 T), (- (tf_w T / tf_r T), 0), (0, - tf_h2 T)])
      else if i = 2 then
        mk [(tf_w T, 0), (0, tf_h2 T), (- tf_w T, 0), (0, - tf_h2 T)]
      else Inl (UnboundLocalError ''w''))"

text \<open>
  \<^verbatim>\<open>TFractal.polygon\<close> of \<^verbatim>\<open>flatsurf/geometry/similarity_surface_generators.py\<close>:
  \<^verbatim>\<open>w = self._words(lab[0]); return (1 / self._r ** w.length()) * self._base_polygon(lab[1])\<close>.
  The left factor is evaluated first.
\<close>

definition TFractal_polygon ::
  "('a polygon \<Rightarrow> error + 'a polygon) \<Rightarrow> 'a::field TFractal \<Rightarrow> word \<times> int \<Rightarrow> error + 'a polygon" where
  "TFractal_polygon mk T lab =
     (let w = fst lab in
      if tf_r T ^ length w = 0 then Inl ZeroDivisionError
      else (case TFractal_base_polygon mk T (snd lab) of
              Inl err \<Rightarrow> Inl err
            | Inr P \<Rightarrow> Inr (scale (1 / tf_r T ^ length w) P)))"

text \<open>
  \<^verbatim>\<open>TFractal.polygon\<close> of the top-level copy \<^verbatim>\<open>similarity_surface_generators.py\<close>:
  \<^verbatim>\<open>return (1 / self._r ** w.length()) * self._base_polygon(lab[1])\<close>.
  The body has no assignment to \<^verbatim>\<open>w\<close>, its parameters are \<^verbatim>\<open>self\<close> and \<^verbatim>\<open>lab\<close>, and the
  module binds no global of that name, so evaluating the left factor stops at the lookup
  of \<^verbatim>\<open>w\<close>, before \<^verbatim>\<open>_base_polygon\<close> is called.
\<close>

definition toplevel_TFractal_polygon ::
  "('a polygon \<Rightarrow> error + 'a polygon) \<Rightarrow> 'a::field TFractal \<Rightarrow> word \<times> int \<Rightarrow> error + 'a polygon" where
  "toplevel_TFractal_polygon mk T lab = Inl (NameError ''w'')"

subsection \<open>ChamanaraSurface: construction\<close>

text \<open>
  The parameter \<open>alpha\<close> is a Sage element: a value together with its parent. Sage integers
  and rationals are the two kinds modelled; \<^verbatim>\<open>field in Fields()\<close> holds for the rational
  field and not for the ring of integers.
\<close>

datatype number = Integer int | Rational rat

datatype parent = ZZ | QQ

fun parent_of :: "number \<Rightarrow> parent" where
  "parent_of (Integer _) = ZZ"
| "parent_of (Rational _) = QQ"

fun in_Fields :: "parent \<Rightarrow> bool" where
  "in_Fields ZZ = False"
| "in_Fields QQ = True"

fun value_of :: "number \<Rightarrow> rat" where
  "value_of (Integer k) = of_int k"
| "value_of (Rational q) = q"

text \<open>
  \<^verbatim>\<open>ChamanaraPolygon\<close>. Each of the two guards builds a \<^verbatim>\<open>ValueError\<close> object as an
  expression statement: the object is dropped and control goes on to the next line. The
  bindings \<open>dropped1\<close> and \<open>dropped2\<close> hold these objects and are not used. The division
  \<^verbatim>\<open>1/(1-alpha)\<close> is exact (an integer divided by an integer is a rational) and raises
  when \<open>1 - alpha\<close> is zero.
\<close>

definition ChamanaraPolygon ::
  "(rat polygon \<Rightarrow> error + rat polygon) \<Rightarrow> number \<Rightarrow> error + rat polygon" where
  "ChamanaraPolygon mk alpha =
     (let field = parent_of alpha;
          dropped1 = (if \<not> in_Fields field
                      then Some (ValueError ''The value of alpha must lie in a field.'')
                      else None);
          dropped2 = (if value_of alpha \<le> 0 \<or> value_of alpha \<ge> 1
                      then Some (ValueError ''The value of alpha must be between zero and one.'')
                      else None)
      in if 1 - value_of alpha = 0 then Inl ZeroDivisionError
         else (let x = 1 / (1 - value_of alpha)
               in mk [(1, 0), (- x, x), (0, -1), (x - 1, 1 - x)]))"

record ChamanaraSurface =
  cs_p :: "rat polygon"
  cs_field :: parent

text \<open>\<^verbatim>\<open>ChamanaraSurface.__init__\<close>: an exception of \<^verbatim>\<open>ChamanaraPolygon\<close> leaves the constructor.\<close>

definition ChamanaraSurface_init ::
  "(rat polygon \<Rightarrow> error + rat polygon) \<Rightarrow> number \<Rightarrow> error + ChamanaraSurface" where
  "ChamanaraSurface_init mk alpha =
     (case ChamanaraPolygon mk alpha of
        Inl err \<Rightarrow> Inl err
      | Inr P \<Rightarrow> Inr \<lparr>cs_p = P, cs_field = parent_of alpha\<rparr>)"

section \<open>Properties\<close>

subsection \<open>The EInfinity weight sequences\<close>

lemma get_white_base:
  "get_white l 0 = l" "get_white l 1 = l" "get_white l (-1) = l - 1"
  "get_white l 2 = 1 - 3 * l + l ^ 2"
  by (subst get_white.simps, simp)+

lemma get_black_base:
  "get_black l 0 = 1" "get_black l 1 = l - 1" "get_black l (-1) = l - 1"
  "get_black l 2 = l - 1"
  by (subst get_black.simps, simp)+

lemma get_white_step: "n > 2 \<Longrightarrow> get_white l n = l * get_black l n - get_white l (n - 1)"
  by (subst get_white.simps) (simp add: Let_def)

lemma get_white_reflect: "n < -1 \<Longrightarrow> get_white l n = get_white l (- n)"
  by (subst get_white.simps) simp

lemma get_black_step: "n > 2 \<Longrightarrow> get_black l n = get_white l (n - 1) - get_black l (n - 1)"
  by (subst get_black.simps) (simp add: Let_def)

lemma get_black_reflect: "n < 0 \<Longrightarrow> n \<noteq> -1 \<Longrightarrow> get_black l n = get_black l (1 - n)"
  by (subst get_black.simps) simp

text \<open>
  C4. For every integer \<open>n\<close> the two sequences satisfy the recurrence system:
  \<open>W(0) = W(1) = l\<close>, \<open>W(-1) = l - 1\<close>, \<open>W(2) = 1 - 3l + l\<^sup>2\<close>,
  \<open>W(n) = l B(n) - W(n-1)\<close> for \<open>n > 2\<close>, \<open>W(n) = W(-n)\<close> for \<open>n < -1\<close>;
  \<open>B(0) = 1\<close>, \<open>B(1) = B(-1) = B(2) = l - 1\<close>, \<open>B(n) = W(n-1) - B(n-1)\<close> for \<open>n > 2\<close>,
  \<open>B(n) = B(1-n)\<close> for \<open>n < 0\<close> other than \<open>-1\<close>.
\<close>

theorem EInfinity_recurrence:
  "get_white l 0 = l \<and> get_white l 1 = l \<and> get_white l (-1) = l - 1 \<and>
   get_white l 2 = 1 - 3 * l + l ^ 2 \<and>
   (n > 2 \<longrightarrow> get_white l n = l * get_black l n - get_white l (n - 1)) \<and>
   (n < -1 \<longrightarrow> get_white l n = get_white l (- n)) \<and>
   get_black l 0 = 1 \<and> get_black l 1 = l - 1 \<and> get_black l (-1) = l - 1 \<and>
   get_black l 2 = l - 1 \<and>
   (n > 2 \<longrightarrow> get_black l n = get_white l (n - 1) - get_black l (n - 1)) \<and>
   (n < 0 \<and> n \<noteq> -1 \<longrightarrow> get_black l n = get_black l (1 - n))"
proof (intro conjI impI)
  show "get_white l 0 = l" "get_white l 1 = l" "get_white l (-1) = l - 1"
    "get_white l 2 = 1 - 3 * l + l ^ 2"
    by (rule get_white_base)+
  show "get_black l 0 = 1" "get_black l 1 = l - 1" "get_black l (-1) = l - 1"
    "get_black l 2 = l - 1"
    by (rule get_black_base)+
  show "get_white l n = l * get_black l n - get_white l (n - 1)" if "2 < n"
    using that by (rule get_white_step)
  show "get_white l n = get_white l (- n)" if "n < -1"
    using that by (rule get_white_reflect)
  show "get_black l n = get_white l (n - 1) - get_black l (n - 1)" if "2 < n"
    using that by (rule get_black_step)
  show "get_black l n = get_black l (1 - n)" if "n < 0 \<and> n \<noteq> -1"
    using that by (simp add: get_black_reflect)
qed

theorem EInfinity_recurrence_witness:
  "(3::int) > 2 \<and> get_white (2::rat) 3 = 2 * get_black 2 3 - get_white 2 2 \<and>
   get_black (2::rat) 3 = get_white 2 2 - get_black 2 2 \<and>
   (-3::int) < -1 \<and> get_white (2::rat) (-3) = get_white 2 3 \<and>
   get_black (2::rat) (-3) = get_black 2 4 \<and>
   get_white (2::rat) 2 = -1 \<and> get_black (2::rat) 2 = 1"
proof -
  have "get_white (2::rat) 2 = -1" "get_black (2::rat) 2 = 1"
    using EInfinity_recurrence [of "2::rat" 3] by simp_all
  moreover have "get_white (2::rat) 3 = 2 * get_black 2 3 - get_white 2 2"
    "get_black (2::rat) 3 = get_white 2 2 - get_black 2 2"
    using EInfinity_recurrence [of "2::rat" 3] by simp_all
  moreover have "get_white (2::rat) (-3) = get_white 2 3"
    "get_black (2::rat) (-3) = get_black 2 4"
    using EInfinity_recurrence [of "2::rat" "-3"] by simp_all
  ultimately show ?thesis by simp
qed

lemma fuel_from_two:
  "2 \<le> n \<Longrightarrow>
     (\<forall>k. nat (2 * (n - 2) + 1) \<le> k \<longrightarrow> get_black_fuel k l n = Some (get_black l n)) \<and>
     (\<forall>k. nat (2 * (n - 2) + 2) \<le> k \<longrightarrow> get_white_fuel k l n = Some (get_white l n))"
proof (induction n rule: int_ge_induct)
  case base
  have "get_black_fuel k l 2 = Some (get_black l 2)" if "1 \<le> k" for k
    using that by (cases k) (simp_all add: get_black_base)
  moreover have "get_white_fuel k l 2 = Some (get_white l 2)" if "2 \<le> k" for k
    using that by (cases k) (simp_all add: get_white_base)
  ultimately show ?case by simp
next
  case (step i)
  have B: "get_black_fuel k l (i + 1) = Some (get_black l (i + 1))"
    if k: "nat (2 * (i + 1 - 2) + 1) \<le> k" for k
  proof -
    from k step.hyps obtain j where j: "k = Suc j" and jb: "nat (2 * (i - 2) + 2) \<le> j"
      by (cases k) auto
    from jb step.IH have "get_black_fuel j l i = Some (get_black l i)"
      and "get_white_fuel j l i = Some (get_white l i)" by auto
    with step.hyps show ?thesis
      unfolding j by (simp add: get_black_step)
  qed
  have W: "get_white_fuel k l (i + 1) = Some (get_white l (i + 1))"
    if k: "nat (2 * (i + 1 - 2) + 2) \<le> k" for k
  proof -
    from k step.hyps obtain j where j: "k = Suc j" and jb: "nat (2 * (i + 1 - 2) + 1) \<le> j"
      by (cases k) auto
    from jb step.hyps have jw: "nat (2 * (i - 2) + 2) \<le> j" by auto
    from jw step.IH have "get_white_fuel j l i = Some (get_white l i)" by auto
    moreover from jb have "get_black_fuel j l (i + 1) = Some (get_black l (i + 1))"
      by (rule B)
    ultimately show ?thesis using step.hyps
      unfolding j by (simp add: get_white_step)
  qed
  from B W show ?case by blast
qed

lemma white_fuel_enough:
  "get_white_fuel (nat (2 * \<bar>n\<bar> + 3)) l n = Some (get_white l n)"
proof -
  obtain j where j: "nat (2 * \<bar>n\<bar> + 3) = Suc j" and jv: "j = nat (2 * \<bar>n\<bar> + 2)"
    by (cases "nat (2 * \<bar>n\<bar> + 3)") auto
  consider "n = 0 \<or> n = 1 \<or> n = -1" | "2 \<le> n" | "n \<le> -2" by linarith
  then show ?thesis
  proof cases
    case 1
    then show ?thesis unfolding j by (elim disjE) (simp_all add: get_white_base)
  next
    case 2
    then have "nat (2 * (n - 2) + 2) \<le> nat (2 * \<bar>n\<bar> + 3)" by simp
    with fuel_from_two [OF 2, of l] show ?thesis by blast
  next
    case 3
    then have pos: "2 \<le> - n" by simp
    from 3 have "nat (2 * (- n - 2) + 2) \<le> j" unfolding jv by simp
    with fuel_from_two [OF pos, of l]
    have "get_white_fuel j l (- n) = Some (get_white l (- n))" by blast
    with 3 show ?thesis
      unfolding j by (simp add: get_white_reflect)
  qed
qed

lemma black_fuel_enough:
  "get_black_fuel (nat (2 * \<bar>n\<bar> + 3)) l n = Some (get_black l n)"
proof -
  obtain j where j: "nat (2 * \<bar>n\<bar> + 3) = Suc j" and jv: "j = nat (2 * \<bar>n\<bar> + 2)"
    by (cases "nat (2 * \<bar>n\<bar> + 3)") auto
  consider "n = 0 \<or> n = 1 \<or> n = -1" | "2 \<le> n" | "n \<le> -2" by linarith
  then show ?thesis
  proof cases
    case 1
    then show ?thesis unfolding j by (elim disjE) (simp_all add: get_black_base)
  next
    case 2
    then have "nat (2 * (n - 2) + 1) \<le> nat (2 * \<bar>n\<bar> + 3)" by simp
    with fuel_from_two [OF 2, of l] show ?thesis by blast
  next
    case 3
    then have pos: "2 \<le> 1 - n" by simp
    from 3 have "nat (2 * (1 - n - 2) + 1) \<le> j" unfolding jv by simp
    with fuel_from_two [OF pos, of l]
    have "get_black_fuel j l (1 - n) = Some (get_black l (1 - n))" by blast
    with 3 show ?thesis
      unfolding j by (simp add: get_black_reflect)
  qed
qed

text \<open>
  C9. For every integer \<open>n\<close> the mutually recursive \<open>get_white\<close> and \<open>get_black\<close>
  terminate: run with a budget of \<open>2|n| + 3\<close> nested calls, both return a value, the one
  the recurrence defines. A negative index is reflected to a positive one in one call, and
  above 2 each call goes to a smaller index or to the other sequence at the same index.
\<close>

theorem EInfinity_sequences_terminate:
  "get_white_fuel (nat (2 * \<bar>n\<bar> + 3)) l n = Some (get_white l n) \<and>
   get_black_fuel (nat (2 * \<bar>n\<bar> + 3)) l n = Some (get_black l n)"
  using white_fuel_enough [of n l] black_fuel_enough [of n l] by (rule conjI)

theorem EInfinity_sequences_terminate_witness:
  "get_white_fuel 11 (2::rat) 4 = Some (get_white 2 4) \<and>
   get_black_fuel 11 (2::rat) 4 = Some (get_black 2 4) \<and>
   get_white_fuel 9 (2::rat) (-3) = Some (get_white 2 (-3))"
proof -
  have "nat (2 * \<bar>4::int\<bar> + 3) = 11" "nat (2 * \<bar>-3::int\<bar> + 3) = 9"
    by simp_all
  with EInfinity_sequences_terminate [of 4 "2::rat"] EInfinity_sequences_terminate [of "-3" "2::rat"]
  show ?thesis by metis
qed

subsection \<open>Gluing tables\<close>

text \<open>
  C8. InfiniteStaircase: for every integer label \<open>p\<close> and edge \<open>e\<close> in \<open>{0,1,2,3}\<close>,
  \<open>opposite_edge(p,e)\<close> is \<open>(p+1, (e+2) mod 4)\<close> when \<open>p+e\<close> is odd and
  \<open>(p-1, (e+2) mod 4)\<close> when it is even; \<open>opposite_edge(0,0) = (-1,2)\<close> and
  \<open>opposite_edge(0,1) = (1,3)\<close>.
\<close>

theorem InfiniteStaircase_opposite_edge_rule:
  "e \<in> {0, 1, 2, 3} \<Longrightarrow>
     (odd (p + e) \<longrightarrow> InfiniteStaircase_opposite_edge p e = (p + 1, (e + 2) mod 4)) \<and>
     (even (p + e) \<longrightarrow> InfiniteStaircase_opposite_edge p e = (p - 1, (e + 2) mod 4)) \<and>
     InfiniteStaircase_opposite_edge 0 0 = (-1, 2) \<and>
     InfiniteStaircase_opposite_edge 0 1 = (1, 3)"
proof -
  have par: "((p + e) mod 2 \<noteq> 0) = odd (p + e)"
    by presburger
  show ?thesis
    unfolding InfiniteStaircase_opposite_edge_def par by simp
qed

theorem InfiniteStaircase_opposite_edge_rule_witness:
  "(3::int) \<in> {0, 1, 2, 3} \<and> odd ((4::int) + 3) \<and> InfiniteStaircase_opposite_edge 4 3 = (5, 1)
   \<and> even ((5::int) + 3) \<and> InfiniteStaircase_opposite_edge 5 3 = (4, 1)"
  using InfiniteStaircase_opposite_edge_rule [of 3 4] InfiniteStaircase_opposite_edge_rule [of 3 5]
  by simp

text \<open>
  C6. ChamanaraSurface: edges 0 and 2 glue \<open>p\<close> to \<open>1 - p\<close> with the edge unchanged;
  edge 1 goes to edge 3 of \<open>p + 1\<close> when \<open>p < 0\<close>, to edge 3 of \<open>p - 1\<close> when \<open>p > 1\<close>, and
  to edge 1 of \<open>1 - p\<close> when \<open>p\<close> is 0 or 1; edge 3 goes to edge 1 of \<open>p - 1\<close> when
  \<open>p \<le> 0\<close> and of \<open>p + 1\<close> when \<open>p \<ge> 1\<close>.
\<close>

theorem ChamanaraSurface_opposite_edge_table:
  "ChamanaraSurface_opposite_edge p 0 = (1 - p, 0) \<and>
   ChamanaraSurface_opposite_edge p 2 = (1 - p, 2) \<and>
   (p < 0 \<longrightarrow> ChamanaraSurface_opposite_edge p 1 = (p + 1, 3)) \<and>
   (p > 1 \<longrightarrow> ChamanaraSurface_opposite_edge p 1 = (p - 1, 3)) \<and>
   (p = 0 \<or> p = 1 \<longrightarrow> ChamanaraSurface_opposite_edge p 1 = (1 - p, 1)) \<and>
   (p \<le> 0 \<longrightarrow> ChamanaraSurface_opposite_edge p 3 = (p - 1, 1)) \<and>
   (p \<ge> 1 \<longrightarrow> ChamanaraSurface_opposite_edge p 3 = (p + 1, 1)) \<and>
   ChamanaraSurface_opposite_edge 0 1 = (1, 1) \<and>
   ChamanaraSurface_opposite_edge 1 1 = (0, 1)"
  by (auto simp: ChamanaraSurface_opposite_edge_def)

theorem ChamanaraSurface_opposite_edge_table_witness:
  "(-2::int) < 0 \<and> ChamanaraSurface_opposite_edge (-2) 1 = (-1, 3) \<and>
   ChamanaraSurface_opposite_edge (-2) 3 = (-3, 1) \<and>
   (5::int) > 1 \<and> ChamanaraSurface_opposite_edge 5 1 = (4, 3) \<and>
   ChamanaraSurface_opposite_edge 5 3 = (6, 1) \<and>
   ChamanaraSurface_opposite_edge 1 1 = (0, 1) \<and>
   ChamanaraSurface_opposite_edge 0 1 = (1, 1)"
  using ChamanaraSurface_opposite_edge_table [of "-2"] ChamanaraSurface_opposite_edge_table [of 5]
    ChamanaraSurface_opposite_edge_table [of 1] ChamanaraSurface_opposite_edge_table [of 0]
  by simp

text \<open>
  C5. TFractal: for every word \<open>w\<close>, \<open>opposite_edge((w,0),0)\<close> is \<open>((w,2),2)\<close> when \<open>w\<close> is
  empty, and strips the last symbol and goes to tag 1 (last symbol \<open>L\<close>) or tag 3 (last
  symbol \<open>R\<close>) with edge 2 otherwise; \<open>opposite_edge((w,2),2)\<close> is \<open>((w,0),0)\<close> when \<open>w\<close> is
  empty, and the same ascent with edge 0 otherwise. The returned edge is \<open>(e+2) mod 4\<close>.
\<close>

theorem TFractal_opposite_edge_ascent:
  "(w = [] \<longrightarrow> TFractal_opposite_edge (w, 0) 0 = Inr ((w, 2), 2)) \<and>
   (w \<noteq> [] \<and> last w = L \<longrightarrow> TFractal_opposite_edge (w, 0) 0 = Inr ((butlast w, 1), 2)) \<and>
   (w \<noteq> [] \<and> last w = R \<longrightarrow> TFractal_opposite_edge (w, 0) 0 = Inr ((butlast w, 3), 2)) \<and>
   (w = [] \<longrightarrow> TFractal_opposite_edge (w, 2) 2 = Inr ((w, 0), 0)) \<and>
   (w \<noteq> [] \<and> last w = L \<longrightarrow> TFractal_opposite_edge (w, 2) 2 = Inr ((butlast w, 1), 0)) \<and>
   (w \<noteq> [] \<and> last w = R \<longrightarrow> TFractal_opposite_edge (w, 2) 2 = Inr ((butlast w, 3), 0)) \<and>
   (\<exists>q. TFractal_opposite_edge (w, 0) 0 = Inr (q, (0 + 2) mod 4)) \<and>
   (\<exists>q. TFractal_opposite_edge (w, 2) 2 = Inr (q, (2 + 2) mod 4))"
  by (auto simp: TFractal_opposite_edge_def)

theorem TFractal_opposite_edge_ascent_witness:
  "TFractal_opposite_edge ([], 0) 0 = Inr (([], 2), 2) \<and>
   TFractal_opposite_edge ([L, L, R, L, R, L], 0) 0 = Inr (([L, L, R, L, R], 1), 2) \<and>
   TFractal_opposite_edge ([L, R], 0) 0 = Inr (([L], 3), 2) \<and>
   TFractal_opposite_edge ([], 2) 2 = Inr (([], 0), 0) \<and>
   TFractal_opposite_edge ([R, L], 2) 2 = Inr (([R], 1), 0) \<and>
   TFractal_opposite_edge ([L, R], 2) 2 = Inr (([L], 3), 0)"
  using TFractal_opposite_edge_ascent [of "[]"] TFractal_opposite_edge_ascent [of "[L, L, R, L, R, L]"]
    TFractal_opposite_edge_ascent [of "[L, R]"] TFractal_opposite_edge_ascent [of "[R, L]"]
  by simp

subsection \<open>The gluing is a fixed-point-free involution\<close>

lemma InfiniteStaircase_involution:
  "e \<in> {0, 1, 2, 3} \<Longrightarrow>
     (case InfiniteStaircase_opposite_edge p e of (q, f) \<Rightarrow> InfiniteStaircase_opposite_edge q f) = (p, e)
     \<and> InfiniteStaircase_opposite_edge p e \<noteq> (p, e)"
  unfolding InfiniteStaircase_opposite_edge_def
  by (elim insertE; simp; presburger)

lemma EInfinity_involution:
  "e \<in> {0, 1, 2, 3} \<Longrightarrow>
     (case EInfinity_opposite_edge p e of (q, f) \<Rightarrow> EInfinity_opposite_edge q f) = (p, e)
     \<and> EInfinity_opposite_edge p e \<noteq> (p, e)"
  unfolding EInfinity_opposite_edge_def
  by (elim insertE; simp)

lemma ChamanaraSurface_involution:
  "e \<in> {0, 1, 2, 3} \<Longrightarrow>
     (case ChamanaraSurface_opposite_edge p e of (q, f) \<Rightarrow> ChamanaraSurface_opposite_edge q f) = (p, e)
     \<and> ChamanaraSurface_opposite_edge p e \<noteq> (p, e)"
  unfolding ChamanaraSurface_opposite_edge_def
  by (elim insertE; simp; presburger)

lemma TFractal_involution:
  "e \<in> {0, 1, 2, 3} \<Longrightarrow> i \<in> {0, 1, 2, 3} \<Longrightarrow>
     (\<exists>q f. TFractal_opposite_edge (w, i) e = Inr (q, f) \<and>
            TFractal_opposite_edge q f = Inr ((w, i), e) \<and> (q, f) \<noteq> ((w, i), e))"
  unfolding TFractal_opposite_edge_def
  by (elim insertE; simp; cases w rule: rev_cases; simp; cases "last w"; simp)

text \<open>
  C1. For each of InfiniteStaircase, EInfinity, TFractal and ChamanaraSurface, every label
  \<open>p\<close> of its label space (an integer; for TFractal a word with a tag in \<open>{0,1,2,3}\<close>) and
  every edge \<open>e\<close> in \<open>{0,1,2,3}\<close>: \<open>opposite_edge(opposite_edge(p,e)) = (p,e)\<close> and
  \<open>opposite_edge(p,e) \<noteq> (p,e)\<close>.
\<close>

theorem opposite_edge_fixed_point_free_involution:
  assumes "e \<in> {0, 1, 2, 3}"
  shows
    "((case InfiniteStaircase_opposite_edge p e of (q, f) \<Rightarrow> InfiniteStaircase_opposite_edge q f) = (p, e)
        \<and> InfiniteStaircase_opposite_edge p e \<noteq> (p, e)) \<and>
     ((case EInfinity_opposite_edge p e of (q, f) \<Rightarrow> EInfinity_opposite_edge q f) = (p, e)
        \<and> EInfinity_opposite_edge p e \<noteq> (p, e)) \<and>
     ((case ChamanaraSurface_opposite_edge p e of (q, f) \<Rightarrow> ChamanaraSurface_opposite_edge q f) = (p, e)
        \<and> ChamanaraSurface_opposite_edge p e \<noteq> (p, e)) \<and>
     (i \<in> {0, 1, 2, 3} \<longrightarrow>
        (\<exists>q f. TFractal_opposite_edge (w, i) e = Inr (q, f) \<and>
               TFractal_opposite_edge q f = Inr ((w, i), e) \<and> (q, f) \<noteq> ((w, i), e)))"
  using InfiniteStaircase_involution [OF assms, of p] EInfinity_involution [OF assms, of p]
    ChamanaraSurface_involution [OF assms, of p] TFractal_involution [OF assms, of i w]
  by blast

theorem opposite_edge_fixed_point_free_involution_witness:
  "(1::int) \<in> {0, 1, 2, 3} \<and> (0::int) \<in> {0, 1, 2, 3} \<and>
   InfiniteStaircase_opposite_edge 2 1 = (3, 3) \<and> InfiniteStaircase_opposite_edge 3 3 = (2, 1) \<and>
   EInfinity_opposite_edge 2 1 = (-2, 3) \<and> EInfinity_opposite_edge (-2) 3 = (2, 1) \<and>
   ChamanaraSurface_opposite_edge 2 1 = (1, 3) \<and> ChamanaraSurface_opposite_edge 1 3 = (2, 1) \<and>
   (\<exists>q f. TFractal_opposite_edge ([L, R], 0) 1 = Inr (q, f) \<and>
          TFractal_opposite_edge q f = Inr (([L, R], 0), 1) \<and> (q, f) \<noteq> (([L, R], 0), 1))"
proof -
  have e: "(1::int) \<in> {0, 1, 2, 3}" and i: "(0::int) \<in> {0, 1, 2, 3}" by simp_all
  note inv = opposite_edge_fixed_point_free_involution [OF e, of 2 0 "[L, R]"]
  have "InfiniteStaircase_opposite_edge 2 1 = (3, 3)"
    by (simp add: InfiniteStaircase_opposite_edge_def)
  moreover have "EInfinity_opposite_edge 2 1 = (-2, 3)"
    by (simp add: EInfinity_opposite_edge_def)
  moreover have "ChamanaraSurface_opposite_edge 2 1 = (1, 3)"
    by (simp add: ChamanaraSurface_opposite_edge_def)
  ultimately show ?thesis using inv e i by simp
qed

subsection \<open>EInfinity: odd edges\<close>

text \<open>
  The statement that an odd edge of a label \<open>p\<close> with \<open>|p| > 2\<close> is glued to an edge of the
  same label fails: edge 1 of label 3 is glued to edge 3 of label \<open>-3\<close>.
\<close>

theorem EInfinity_odd_edge_label_fixed_counterexample:
  "EInfinity_opposite_edge 3 1 = (-3, 3) \<and> \<bar>3::int\<bar> > 2 \<and> (1::int) \<in> {1, 3} \<and>
   EInfinity_opposite_edge 3 1 \<noteq> (3, (1 + 2) mod 4)"
  by (simp add: EInfinity_opposite_edge_def)

text \<open>
  C3 (amended). EInfinity: for every label \<open>p\<close> with \<open>|p| > 2\<close> and every odd edge \<open>e\<close> in
  \<open>{1,3}\<close>, \<open>opposite_edge(p,e)\<close> is \<open>(-p, (e+2) mod 4)\<close>: the label is negated, and the
  edge goes to the opposite side.
\<close>

theorem EInfinity_odd_edge_negates_label:
  "\<bar>p\<bar> > 2 \<Longrightarrow> e \<in> {1, 3} \<Longrightarrow> EInfinity_opposite_edge p e = (- p, (e + 2) mod 4)"
  unfolding EInfinity_opposite_edge_def by (elim insertE; simp; linarith)

theorem EInfinity_odd_edge_negates_label_witness:
  "\<bar>-5::int\<bar> > 2 \<and> (3::int) \<in> {1, 3} \<and> EInfinity_opposite_edge (-5) 3 = (5, 1)"
  using EInfinity_odd_edge_negates_label [of "-5" 3] by simp

subsection \<open>Edges outside the polygon\<close>

text \<open>
  InfiniteStaircase, EInfinity and ChamanaraSurface do not check the edge: at edge 4 each
  of them returns a pair.
\<close>

theorem opposite_edge_invalid_edge_counterexample:
  "(4::int) \<notin> {0, 1, 2, 3} \<and>
   ChamanaraSurface_opposite_edge 0 4 = (-1, 1) \<and>
   InfiniteStaircase_opposite_edge 0 4 = (-1, 2) \<and>
   EInfinity_opposite_edge 0 4 = (1, 2)"
  by (simp add: ChamanaraSurface_opposite_edge_def InfiniteStaircase_opposite_edge_def
      EInfinity_opposite_edge_def)

text \<open>
  C7 (amended). TFractal: for every label, \<open>opposite_edge(label, e)\<close> with \<open>e\<close> outside
  \<open>{0,1,2,3}\<close> raises the \<^verbatim>\<open>ValueError\<close> for an invalid edge and returns no pair. The edge
  is checked before the tag of the label is.
\<close>

theorem TFractal_opposite_edge_invalid_edge:
  "e \<notin> {0, 1, 2, 3} \<Longrightarrow>
     TFractal_opposite_edge (w, i) e = Inl (ValueError ''e must be either 0,1,2 or 3'')"
  by (simp add: TFractal_opposite_edge_def)

theorem TFractal_opposite_edge_invalid_edge_witness:
  "(4::int) \<notin> {0, 1, 2, 3} \<and>
   TFractal_opposite_edge ([L], 0) 4 = Inl (ValueError ''e must be either 0,1,2 or 3'')"
  using TFractal_opposite_edge_invalid_edge [of 4 "[L]" 0] by simp

subsection \<open>Construction of the Chamanara polygon\<close>

text \<open>
  C2. The claim: constructing a ChamanaraSurface with \<open>alpha \<le> 0\<close>, \<open>alpha \<ge> 1\<close> or an
  \<open>alpha\<close> whose parent is not a field fails with the \<^verbatim>\<open>ValueError\<close> of the guard. The
  code at such inputs: with \<open>alpha = 1\<close> the construction fails in the division, with
  \<^verbatim>\<open>ZeroDivisionError\<close>; with the integer \<open>alpha = 2\<close> the result is whatever the polygon
  constructor makes of the edges for \<open>x = -1\<close>; with \<open>alpha = -1\<close> and a constructor that
  accepts every sequence of edges, the surface is built.
\<close>

theorem ChamanaraPolygon_guards_never_raise:
  "ChamanaraSurface_init mk (Rational 1) = Inl ZeroDivisionError \<and>
   ChamanaraPolygon mk (Rational 1) = Inl ZeroDivisionError \<and>
   ChamanaraPolygon mk (Integer 2) = mk [(1, 0), (1, -1), (0, -1), (-2, 2)] \<and>
   ChamanaraSurface_init Inr (Rational (-1)) =
     Inr \<lparr>cs_p = [(1, 0), (- (1 / 2), 1 / 2), (0, -1), (- (1 / 2), 1 / 2)], cs_field = QQ\<rparr>"
  by (simp add: ChamanaraSurface_init_def ChamanaraPolygon_def Let_def)

subsection \<open>The two copies of TFractal.polygon\<close>

text \<open>
  C10. In the top-level copy of the module, \<open>TFractal.polygon(lab)\<close> fails for every label
  with the error of the unbound name \<^verbatim>\<open>w\<close> and never returns a polygon. The copy under
  \<^verbatim>\<open>flatsurf/geometry\<close> returns \<open>1 / r ^ |w|\<close> times the base polygon of the tag whenever
  \<open>r\<close> is not zero and the base polygon is built, so the two are not equivalent.
\<close>

theorem toplevel_TFractal_polygon_unbound:
  "toplevel_TFractal_polygon mk T lab = Inl (NameError ''w'') \<and>
   (tf_r T \<noteq> 0 \<and> TFractal_base_polygon mk T (snd lab) = Inr P \<longrightarrow>
      TFractal_polygon mk T lab = Inr (scale (1 / tf_r T ^ length (fst lab)) P) \<and>
      toplevel_TFractal_polygon mk T lab \<noteq> TFractal_polygon mk T lab)"
  by (simp add: toplevel_TFractal_polygon_def TFractal_polygon_def Let_def)

theorem toplevel_TFractal_polygon_unbound_witness:
  "toplevel_TFractal_polygon Inr \<lparr>tf_w = 1, tf_r = 2 :: rat, tf_h1 = 1, tf_h2 = 1\<rparr> ([L, R, L], 0)
     = Inl (NameError ''w'') \<and>
   TFractal_polygon Inr \<lparr>tf_w = 1, tf_r = 2 :: rat, tf_h1 = 1, tf_h2 = 1\<rparr> ([L, R, L], 0)
     = Inr [(1 / 8, 0), (0, 1 / 8), (- (1 / 8), 0), (0, - (1 / 8))]"
proof -
  let ?T = "\<lparr>tf_w = 1, tf_r = 2 :: rat, tf_h1 = 1, tf_h2 = 1\<rparr>"
  have r: "tf_r ?T \<noteq> 0" by simp
  have b: "TFractal_base_polygon Inr ?T (snd ([L, R, L], 0)) = Inr [(1, 0), (0, 1), (-1, 0), (0, -1)]"
    by (simp add: TFractal_base_polygon_def)
  from toplevel_TFractal_polygon_unbound [of Inr ?T "([L, R, L], 0)" "[(1, 0), (0, 1), (-1, 0), (0, -1)]"] r b
  show ?thesis by (simp add: scale_def)
qed

end
